theory Spec2Isabelle
  imports Complex_Main
begin

section \<open>Defect inflow predictor: the analytics pipeline of cli.py\<close>

text \<open>
  The theory embeds the four functions of \<^verbatim>\<open>src/cli.py\<close> that make up the pipeline:
  \<^verbatim>\<open>derive_measures\<close>, \<^verbatim>\<open>indicators\<close>, \<^verbatim>\<open>forecast_next\<close> (with \<^verbatim>\<open>ewma\<close> and
  \<^verbatim>\<open>linreg_forecast\<close>) and \<^verbatim>\<open>resource_plan\<close>.

  Conventions of the embedding.
  \<^item> A pandas data frame is the list of its rows, oldest week first; a row is a record
    with one field per column.
  \<^item> The count columns hold integers and are of type \<open>int\<close>: the 64-bit range of a
    pandas integer column is not modelled, weekly defect counts being far inside it.
  \<^item> Python floats are of type \<open>real\<close> and their operations are taken as exact:
    rounding error, infinities and NaN of binary64 are not part of that model. Where a
    statement turns on the rounding, for the recurrence of \<^verbatim>\<open>ewma\<close>, the function is
    given a second time with every operation rounded to binary64.
  \<^item> A Python exception is a value \<open>Inl e\<close> of the result type.
  \<^item> A configuration mapping that the code indexes by a severity name is a partial map
    from names; a missing name raises \<open>KeyError\<close> as \<^verbatim>\<open>d[k]\<close> does.
\<close>

subsection \<open>Exceptions\<close>

datatype py_error =
    KeyError string
  | IndexError
  | TypeError
  | LinAlgError

definition lookup :: "(string \<rightharpoonup> 'a) \<Rightarrow> string \<Rightarrow> py_error + 'a" where
  "lookup d k = (case d k of None \<Rightarrow> Inl (KeyError k) | Some v \<Rightarrow> Inr v)"

subsection \<open>Rows and configuration\<close>

text \<open>The columns written by the ingestion adapter, one row per week.\<close>

record measure =
  week_start :: string
  defects_inflow_total :: int
  defects_outflow_total :: int
  severity_critical_in :: int
  severity_high_in :: int
  severity_medium_in :: int
  severity_low_in :: int
  avg_resolution_time_hours :: real
  backlog_total :: int

text \<open>The columns that \<^verbatim>\<open>derive_measures\<close> adds to a copy of the frame.\<close>

record derived = measure +
  net_flow :: int
  inflow_rate :: int
  outflow_rate :: int
  severity_weighted_inflow :: real
  severe_inflow :: int
  mttr_hours :: real

text \<open>The columns that \<^verbatim>\<open>indicators\<close> adds.\<close>

record indicator = derived +
  problem_flags :: string
  health_status :: string

text \<open>
  \<^verbatim>\<open>cfg["forecast"]\<close>: the section and its \<^verbatim>\<open>method\<close> key (the field
  \<open>forecast_method\<close>) are read with \<^verbatim>\<open>.get\<close> and a default, \<^verbatim>\<open>ewma_alpha\<close> by
  index, so each may be absent.
\<close>

record forecast_cfg =
  forecast_method :: "string option"
  ewma_alpha :: "real option"

record thresholds =
  inflow_gt_outflow_consecutive_weeks :: int
  backlog_healthy_max :: real
  critical_severe_window :: int
  critical_severe_min :: real
  healthy_max_per_deployment :: real

record resources_cfg =
  hours_per_defect :: "string \<rightharpoonup> real"
  engineer_capacity_hours_per_week :: real
  qa_share :: real

record config =
  severity_weights :: "string \<rightharpoonup> real"
  forecast :: "forecast_cfg option"
  health_thresholds :: thresholds
  resources :: resources_cfg

subsection \<open>derive_measures\<close>

text \<open>
  The column expressions of \<^verbatim>\<open>derive_measures\<close>, for one row. The four weights are
  the values \<^verbatim>\<open>w["critical"]\<close>, \<^verbatim>\<open>w["high"]\<close>, \<^verbatim>\<open>w["medium"]\<close>, \<^verbatim>\<open>w["low"]\<close>.
\<close>

definition derive_row :: "real \<Rightarrow> real \<Rightarrow> real \<Rightarrow> real \<Rightarrow> measure \<Rightarrow> derived" where
  "derive_row wc wh wm wl r =
     measure.extend r
       (derived.fields
          (defects_inflow_total r - defects_outflow_total r)
          (defects_inflow_total r)
          (defects_outflow_total r)
          (wc * real_of_int (severity_critical_in r) +
           wh * real_of_int (severity_high_in r) +
           wm * real_of_int (severity_medium_in r) +
           wl * real_of_int (severity_low_in r))
          (severity_critical_in r + severity_high_in r)
          (avg_resolution_time_hours r))"


subsection \<open>ewma\<close>

text \<open>
  The body of the \<^verbatim>\<open>for\<close> loop of \<^verbatim>\<open>ewma\<close>, run \<open>n\<close> times on the running
  \<^verbatim>\<open>forecast\<close>; \<open>lst\<close> is \<^verbatim>\<open>series.iloc[-1]\<close>.
\<close>

fun ewma_loop :: "real \<Rightarrow> real \<Rightarrow> nat \<Rightarrow> real \<Rightarrow> real" where
  "ewma_loop alpha lst 0 fc = fc"
| "ewma_loop alpha lst (Suc n) fc = ewma_loop alpha lst n (alpha * lst + (1 - alpha) * fc)"

text \<open>
  \<^verbatim>\<open>series.iloc[-1]\<close> raises \<open>IndexError\<close> on an empty series;
  \<^verbatim>\<open>range(horizon)\<close> is empty for a horizon below 1.
\<close>

definition ewma :: "real list \<Rightarrow> real \<Rightarrow> int \<Rightarrow> py_error + real" where
  "ewma series alpha horizon =
     (if series = [] then Inl IndexError
      else Inr (ewma_loop alpha (last series) (nat horizon) (last series)))"

subsection \<open>indicators\<close>

text \<open>
  \<^verbatim>\<open>DataFrame.tail(n)\<close> is \<^verbatim>\<open>iloc[-n:]\<close>, and the empty frame for \<open>n = 0\<close>: the
  last \<open>n\<close> rows (all of them when there are fewer) for a positive \<open>n\<close>, all rows
  but the first \<open>-n\<close> for a negative one.
\<close>

definition tail_rows :: "int \<Rightarrow> 'a list \<Rightarrow> 'a list" where
  "tail_rows n rows =
     (if n = 0 then []
      else if n < 0 then drop (nat (- n)) rows
      else drop (length rows - nat n) rows)"

text \<open>\<^verbatim>\<open>sep.join(names)\<close>.\<close>

fun join :: "string \<Rightarrow> string list \<Rightarrow> string" where
  "join sep [] = []"
| "join sep [x] = x"
| "join sep (x # y # ys) = x @ sep @ join sep (y # ys)"

text \<open>
  The three tests of the loop body for week \<open>i\<close>, on the prefix
  \<^verbatim>\<open>wdf = df.iloc[:i+1]\<close>.
\<close>

definition inflow_gt_outflow_raised :: "thresholds \<Rightarrow> derived list \<Rightarrow> nat \<Rightarrow> bool" where
  "inflow_gt_outflow_raised th df i =
     (let wdf = take (i + 1) df; N = inflow_gt_outflow_consecutive_weeks th in
      int i + 1 \<ge> N \<and>
      list_all (\<lambda>r. defects_inflow_total r > defects_outflow_total r) (tail_rows N wdf))"

definition backlog_high_raised :: "thresholds \<Rightarrow> derived list \<Rightarrow> nat \<Rightarrow> bool" where
  "backlog_high_raised th df i =
     (real_of_int (backlog_total (df ! i)) > backlog_healthy_max th)"

definition severe_spike_raised :: "thresholds \<Rightarrow> derived list \<Rightarrow> nat \<Rightarrow> bool" where
  "severe_spike_raised th df i =
     (let wdf = take (i + 1) df; K = critical_severe_window th;
          severe_sum = sum_list (map severe_inflow (tail_rows K wdf)) in
      real_of_int severe_sum \<ge> critical_severe_min th)"

text \<open>The list \<^verbatim>\<open>flags\<close> after the three appends, in the order of the appends.\<close>

definition week_flags :: "thresholds \<Rightarrow> derived list \<Rightarrow> nat \<Rightarrow> string list" where
  "week_flags th df i =
     (if inflow_gt_outflow_raised th df i then [''inflow>outflow''] else []) @
     (if backlog_high_raised th df i then [''backlog_high''] else []) @
     (if severe_spike_raised th df i then [''severe_spike''] else [])"

text \<open>The value appended to \<^verbatim>\<open>status\<close> for week \<open>i\<close>, given its \<^verbatim>\<open>flags\<close>.\<close>

definition week_status :: "thresholds \<Rightarrow> derived list \<Rightarrow> nat \<Rightarrow> string list \<Rightarrow> string" where
  "week_status th df i flags =
     (if ''severe_spike'' \<in> set flags \<or>
         (''inflow>outflow'' \<in> set flags \<and> ''backlog_high'' \<in> set flags)
      then ''red''
      else if flags \<noteq> [] then ''yellow''
      else if real_of_int (defects_inflow_total (df ! i)) \<le> healthy_max_per_deployment th
      then ''green''
      else ''yellow'')"

definition indicator_row :: "thresholds \<Rightarrow> derived list \<Rightarrow> nat \<Rightarrow> indicator" where
  "indicator_row th df i =
     (let flags = week_flags th df i in
      derived.extend (df ! i)
        (indicator.fields
           (if flags \<noteq> [] then join '','' flags else [])
           (week_status th df i flags)))"

text \<open>The loop runs over \<^verbatim>\<open>range(len(df))\<close>, so every index read is in range.\<close>

definition indicators :: "derived list \<Rightarrow> config \<Rightarrow> indicator list" where
  "indicators df cfg =
     (let th = health_thresholds cfg in map (indicator_row th df) [0..<length df])"

subsection \<open>linreg_forecast\<close>

text \<open>
  \<^verbatim>\<open>np.polyfit(x, y, 1)\<close> is a function of numpy, not of this repository. It is
  modelled by what its documentation states: the coefficients \<open>(a, b)\<close> of the line
  \<open>a * x + b\<close> that minimises the squared error, here by the normal equations in exact
  arithmetic. numpy raises \<open>TypeError\<close> for an empty \<open>x\<close> and for vectors of different
  lengths. When all abscissae are equal the normal equations have no unique solution;
  the model returns \<open>LinAlgError\<close> there. In \<^verbatim>\<open>linreg_forecast\<close> that is the series of
  one point only, and no statement below depends on what numpy does with it.
\<close>

definition polyfit1 :: "real list \<Rightarrow> real list \<Rightarrow> py_error + real \<times> real" where
  "polyfit1 xs ys =
     (let n = real (length xs);
          sx = sum_list xs;
          sy = sum_list ys;
          sxx = sum_list (map (\<lambda>x. x * x) xs);
          sxy = sum_list (map (\<lambda>(x, y). x * y) (zip xs ys));
          d = n * sxx - sx * sx in
      if xs = [] \<or> length xs \<noteq> length ys then Inl TypeError
      else if d = 0 then Inl LinAlgError
      else (let a = (n * sxy - sx * sy) / d in Inr (a, (sy - a * sx) / n)))"


text \<open>
  \<^verbatim>\<open>x = np.arange(len(y))\<close>; \<^verbatim>\<open>preds\<close> holds one value for each \<open>h\<close> of
  \<^verbatim>\<open>range(1, horizon+1)\<close>, and \<^verbatim>\<open>preds[-1]\<close> raises \<open>IndexError\<close> when that range
  is empty.
\<close>

definition linreg_forecast :: "real list \<Rightarrow> int \<Rightarrow> py_error + real" where
  "linreg_forecast y horizon =
     (let x = map real [0..<length y] in
      case polyfit1 x y of
        Inl e \<Rightarrow> Inl e
      | Inr (a, b) \<Rightarrow>
          (let preds = map (\<lambda>h. a * real_of_int (int (length y) - 1 + h) + b) [1..horizon] in
           if preds = [] then Inl IndexError else Inr (last preds)))"

subsection \<open>forecast_next\<close>

text \<open>\<^verbatim>\<open>cfg.get("forecast", {}).get("method", "ewma")\<close>.\<close>

definition configured_method :: "config \<Rightarrow> string" where
  "configured_method cfg =
     (case forecast cfg of
        None \<Rightarrow> ''ewma''
      | Some f \<Rightarrow> (case forecast_method f of None \<Rightarrow> ''ewma'' | Some m \<Rightarrow> m))"

text \<open>
  The guard of the automatic switch, and the value of \<^verbatim>\<open>method\<close> after it. When the
  guard holds the function also prints the line that reports the switch.
\<close>

definition auto_switch :: "config \<Rightarrow> int \<Rightarrow> bool" where
  "auto_switch cfg horizon = (horizon > 3 \<and> configured_method cfg = ''ewma'')"

definition chosen_method :: "config \<Rightarrow> int \<Rightarrow> string" where
  "chosen_method cfg horizon =
     (if auto_switch cfg horizon then ''linreg'' else configured_method cfg)"

datatype event = Auto_switch_to_linreg int

definition forecast_next_printed :: "config \<Rightarrow> int \<Rightarrow> event list" where
  "forecast_next_printed cfg horizon =
     (if auto_switch cfg horizon then [Auto_switch_to_linreg horizon] else [])"

text \<open>The two branches on \<^verbatim>\<open>method == "ewma"\<close>, each giving the pair of predictions.\<close>

definition ewma_predictions ::
  "real list \<Rightarrow> real list \<Rightarrow> config \<Rightarrow> int \<Rightarrow> py_error + real \<times> real" where
  "ewma_predictions inflow outflow cfg horizon =
     (case forecast cfg of
        None \<Rightarrow> Inl (KeyError ''forecast'')
      | Some f \<Rightarrow>
          (case ewma_alpha f of
             None \<Rightarrow> Inl (KeyError ''ewma_alpha'')
           | Some alpha \<Rightarrow>
               (case ewma inflow alpha horizon of
                  Inl e \<Rightarrow> Inl e
                | Inr inflow_pred \<Rightarrow>
                    (case ewma outflow alpha horizon of
                       Inl e \<Rightarrow> Inl e
                     | Inr outflow_pred \<Rightarrow> Inr (inflow_pred, outflow_pred)))))"

definition linreg_predictions :: "real list \<Rightarrow> real list \<Rightarrow> int \<Rightarrow> py_error + real \<times> real" where
  "linreg_predictions inflow outflow horizon =
     (case linreg_forecast inflow horizon of
        Inl e \<Rightarrow> Inl e
      | Inr inflow_pred \<Rightarrow>
          (case linreg_forecast outflow horizon of
             Inl e \<Rightarrow> Inl e
           | Inr outflow_pred \<Rightarrow> Inr (inflow_pred, outflow_pred)))"

text \<open>
  The mean of a column of \<^verbatim>\<open>df.tail(10)\<close>. It is only computed after a prediction
  succeeded, hence on a frame with at least one row.
\<close>

definition mean :: "real list \<Rightarrow> real" where
  "mean xs = sum_list xs / real (length xs)"

text \<open>
  Python's \<^verbatim>\<open>round(x, 1)\<close>: the nearest multiple of one tenth, a tie going to the even
  one.
\<close>

definition round_half_even :: "real \<Rightarrow> int" where
  "round_half_even x =
     (let f = \<lfloor>x\<rfloor>; d = x - real_of_int f in
      if d < 1 / 2 then f
      else if 1 / 2 < d then f + 1
      else if even f then f else f + 1)"

definition round1 :: "real \<Rightarrow> real" where
  "round1 x = real_of_int (round_half_even (x * 10)) / 10"

text \<open>The dictionary \<^verbatim>\<open>sev_pred\<close>, as the list of its items in insertion order.\<close>

definition severity_prediction :: "('a measure_scheme) list \<Rightarrow> real \<Rightarrow> (string \<times> real) list" where
  "severity_prediction df inflow_pred =
     (let recent = tail_rows 10 df;
          col = (\<lambda>c. mean (map (\<lambda>r. real_of_int (c r)) recent));
          m = col defects_inflow_total;
          total = (if m = 0 then 1 else m);
          mix = [(''critical'', col severity_critical_in / total),
                 (''high'', col severity_high_in / total),
                 (''medium'', col severity_medium_in / total),
                 (''low'', col severity_low_in / total)] in
      map (\<lambda>(k, v). (k, max 0 (round1 (v * inflow_pred)))) mix)"

text \<open>
  The columns \<^verbatim>\<open>df["defects_inflow_total"]\<close> and \<^verbatim>\<open>df["defects_outflow_total"]\<close>
  as the series handed to the two methods.
\<close>

definition inflow_series :: "('a measure_scheme) list \<Rightarrow> real list" where
  "inflow_series df = map (\<lambda>r. real_of_int (defects_inflow_total r)) df"

definition outflow_series :: "('a measure_scheme) list \<Rightarrow> real list" where
  "outflow_series df = map (\<lambda>r. real_of_int (defects_outflow_total r)) df"

text \<open>
  The end of \<^verbatim>\<open>forecast_next\<close>, from the severity mix to the \<^verbatim>\<open>return\<close>: it runs
  only when neither prediction raised.
\<close>

definition forecast_result ::
  "('a measure_scheme) list \<Rightarrow> py_error + real \<times> real \<Rightarrow>
   py_error + real \<times> real \<times> (string \<times> real) list" where
  "forecast_result df preds =
     (case preds of
        Inl e \<Rightarrow> Inl e
      | Inr (inflow_pred, outflow_pred) \<Rightarrow>
          Inr (max 0 inflow_pred, max 0 outflow_pred, severity_prediction df inflow_pred))"

definition forecast_next ::
  "('a measure_scheme) list \<Rightarrow> config \<Rightarrow> int \<Rightarrow> py_error + real \<times> real \<times> (string \<times> real) list" where
  "forecast_next df cfg horizon =
     (let method = chosen_method cfg horizon in
      forecast_result df
        (if method = ''ewma''
         then ewma_predictions (inflow_series df) (outflow_series df) cfg horizon
         else linreg_predictions (inflow_series df) (outflow_series df) horizon))"

subsection \<open>resource_plan\<close>

record plan =
  predicted_inflow :: real
  estimated_total_hours :: real
  recommended_engineers :: int
  recommended_qa_hours :: real
  plan_hours_per_defect :: "string \<rightharpoonup> real"

text \<open>
  The loop over \<^verbatim>\<open>sev_pred.items()\<close> that accumulates \<^verbatim>\<open>total_hours\<close>;
  \<^verbatim>\<open>hp[k]\<close> raises \<open>KeyError\<close> for a severity without an entry.
\<close>

fun total_hours_loop :: "(string \<rightharpoonup> real) \<Rightarrow> (string \<times> real) list \<Rightarrow> real \<Rightarrow> py_error + real" where
  "total_hours_loop hp [] total_hours = Inr total_hours"
| "total_hours_loop hp ((k, count) # rest) total_hours =
     (case lookup hp k of
        Inl e \<Rightarrow> Inl e
      | Inr h \<Rightarrow> total_hours_loop hp rest (total_hours + h * count))"

definition resource_plan :: "real \<Rightarrow> (string \<times> real) list \<Rightarrow> config \<Rightarrow> py_error + plan" where
  "resource_plan next_inflow sev_pred cfg =
     (let hp = hours_per_defect (resources cfg) in
      case total_hours_loop hp sev_pred 0 of
        Inl e \<Rightarrow> Inl e
      | Inr total_hours \<Rightarrow>
          (let cap = engineer_capacity_hours_per_week (resources cfg);
               engineers = (if cap > 0 then \<lceil>total_hours / cap\<rceil> else 0);
               qa_hours = total_hours * qa_share (resources cfg) in
           Inr \<lparr>predicted_inflow = round1 next_inflow,
                estimated_total_hours = round1 total_hours,
                recommended_engineers = engineers,
                recommended_qa_hours = round1 qa_hours,
                plan_hours_per_defect = hp\<rparr>))"


subsection \<open>The EWMA recurrence in binary64 arithmetic\<close>

text \<open>
  The operands of \<^verbatim>\<open>alpha * series.iloc[-1] + (1-alpha) * forecast\<close> are binary64 floats,
  and each of its four operations rounds its exact result to the nearest binary64 number,
  a tie going to the even significand. \<open>round_binary64\<close> is that rounding for a
  significand of 53 bits: a non-zero \<open>x\<close> with \<open>2 ^ e \<le> \<bar>x\<bar> < 2 ^ (e + 1)\<close> is rounded
  to a multiple of \<open>2 ^ (e - 52)\<close>. The exponent is not bounded here: overflow to infinity
  and the subnormal numbers are left out.
\<close>

definition round_binary64 :: "real \<Rightarrow> real" where
  "round_binary64 x =
     (if x = 0 then 0
      else (let ulp = 2 powi (\<lfloor>log 2 \<bar>x\<bar>\<rfloor> - 52) in
            real_of_int (round_half_even (x / ulp)) * ulp))"




text \<open>
  The binary64 numbers nearest to 0.2 and to 0.3, the values that the literals
  \<^verbatim>\<open>0.2\<close> and \<^verbatim>\<open>0.3\<close> denote.
\<close>

definition binary64_0_2 :: real where
  "binary64_0_2 = 3602879701896397 / 18014398509481984"

definition binary64_0_3 :: real where
  "binary64_0_3 = 5404319552844595 / 18014398509481984"

subsection \<open>A worked scenario\<close>

text \<open>
  Four weeks with inflow 5, 6, 7, 8, outflow 4 each week and backlog 1, 3, 6, 10, under
  the thresholds 3, 8, 4, 5 and 5. The rows and the configuration below are the inputs
  at which the statements of the next section are instantiated.
\<close>

definition example_weeks :: "measure list" where
  "example_weeks =
     [\<lparr>week_start = ''2025-01-06'', defects_inflow_total = 5, defects_outflow_total = 4,
       severity_critical_in = 0, severity_high_in = 1, severity_medium_in = 2,
       severity_low_in = 2, avg_resolution_time_hours = 36, backlog_total = 1\<rparr>,
      \<lparr>week_start = ''2025-01-13'', defects_inflow_total = 6, defects_outflow_total = 4,
       severity_critical_in = 0, severity_high_in = 1, severity_medium_in = 3,
       severity_low_in = 2, avg_resolution_time_hours = 36, backlog_total = 3\<rparr>,
      \<lparr>week_start = ''2025-01-20'', defects_inflow_total = 7, defects_outflow_total = 4,
       severity_critical_in = 0, severity_high_in = 1, severity_medium_in = 3,
       severity_low_in = 3, avg_resolution_time_hours = 36, backlog_total = 6\<rparr>,
      \<lparr>week_start = ''2025-01-27'', defects_inflow_total = 8, defects_outflow_total = 4,
       severity_critical_in = 0, severity_high_in = 1, severity_medium_in = 4,
       severity_low_in = 3, avg_resolution_time_hours = 36, backlog_total = 10\<rparr>]"

definition example_cfg :: config where
  "example_cfg =
     \<lparr>severity_weights = [''critical'' \<mapsto> 5, ''high'' \<mapsto> 3, ''medium'' \<mapsto> 2, ''low'' \<mapsto> 1],
      forecast = Some \<lparr>forecast_method = Some ''ewma'', ewma_alpha = Some (3 / 10)\<rparr>,
      health_thresholds =
        \<lparr>inflow_gt_outflow_consecutive_weeks = 3, backlog_healthy_max = 8,
         critical_severe_window = 4, critical_severe_min = 5,
         healthy_max_per_deployment = 5\<rparr>,
      resources =
        \<lparr>hours_per_defect = [''critical'' \<mapsto> 8, ''high'' \<mapsto> 5, ''medium'' \<mapsto> 3, ''low'' \<mapsto> 1],
         engineer_capacity_hours_per_week = 40, qa_share = 1 / 4\<rparr>\<rparr>"

definition example_derived :: "derived list" where
  "example_derived = map (derive_row 5 3 2 1) example_weeks"

text \<open>
  The scenario's configuration with a smoothing factor outside the interval from 0 to 1,
  and with the linear-regression method.
\<close>

definition unchecked_cfg :: config where
  "unchecked_cfg =
     example_cfg\<lparr>forecast := Some \<lparr>forecast_method = Some ''ewma'', ewma_alpha = Some 2\<rparr>\<rparr>"

definition linreg_cfg :: config where
  "linreg_cfg =
     example_cfg\<lparr>forecast := Some \<lparr>forecast_method = Some ''linreg'', ewma_alpha = None\<rparr>\<rparr>"

text \<open>A frame of one week whose flow counts are negative.\<close>

definition negative_weeks :: "measure list" where
  "negative_weeks =
     [\<lparr>week_start = ''2025-02-03'', defects_inflow_total = - 2, defects_outflow_total = - 1,
       severity_critical_in = 1, severity_high_in = 0, severity_medium_in = 0,
       severity_low_in = 0, avg_resolution_time_hours = 36, backlog_total = 0\<rparr>]"





text \<open>A severity forecast over the four severities, as \<^verbatim>\<open>forecast_next\<close> returns it.\<close>

definition example_sev_pred :: "(string \<times> real) list" where
  "example_sev_pred = [(''critical'', 0), (''high'', 12 / 10), (''medium'', 37 / 10), (''low'', 31 / 10)]"

section \<open>Properties\<close>

subsection \<open>Measure derivation\<close>





subsection \<open>The EWMA recurrence\<close>



text \<open>
  Rounding: how \<open>round_binary64\<close> is evaluated once the binade of its argument is
  known, and the bound on its relative error.
\<close>

lemma round_binary64_eval:
  assumes "2 powi e \<le> \<bar>x\<bar>" and "\<bar>x\<bar> < 2 powi (e + 1)"
  shows "round_binary64 x =
           real_of_int (round_half_even (x / 2 powi (e - 52))) * 2 powi (e - 52)"
proof -
  have "(0::real) < 2 powi e" by simp
  with assms(1) have pos: "0 < \<bar>x\<bar>" by linarith
  then have "x \<noteq> 0" by simp
  moreover have "\<lfloor>log 2 \<bar>x\<bar>\<rfloor> = e"
  proof -
    have "2 powr real_of_int e \<le> \<bar>x\<bar>" "\<bar>x\<bar> < 2 powr real_of_int (e + 1)"
      using assms by (simp_all only: powr_real_of_int' [of 2, simplified])
    then show ?thesis
      using pos by (subst floor_log_eq_powr_iff) simp_all
  qed
  ultimately show ?thesis by (simp add: round_binary64_def Let_def)
qed



lemma binary64_literals:
  "round_binary64 (2 / 10) = binary64_0_2"
  "round_binary64 (3 / 10) = binary64_0_3"
  using round_binary64_eval [of "- 3" "2 / 10"] round_binary64_eval [of "- 2" "3 / 10"]
  by (simp_all add: round_half_even_def Let_def binary64_0_2_def binary64_0_3_def)
















subsection \<open>Health status\<close>

lemma week_flags_mem:
  "''severe_spike'' \<in> set (week_flags th df i) \<longleftrightarrow> severe_spike_raised th df i"
  "''inflow>outflow'' \<in> set (week_flags th df i) \<longleftrightarrow> inflow_gt_outflow_raised th df i"
  "''backlog_high'' \<in> set (week_flags th df i) \<longleftrightarrow> backlog_high_raised th df i"
  by (simp_all add: week_flags_def)

lemma week_flags_empty:
  "week_flags th df i = [] \<longleftrightarrow>
     \<not> severe_spike_raised th df i \<and> \<not> inflow_gt_outflow_raised th df i \<and>
     \<not> backlog_high_raised th df i"
  by (simp add: week_flags_def)

lemma indicators_nth:
  "i < length df \<Longrightarrow> indicators df cfg ! i = indicator_row (health_thresholds cfg) df i"
  by (simp add: indicators_def)

lemma indicator_row_fields:
  "health_status (indicator_row th df i) = week_status th df i (week_flags th df i)"
  "problem_flags (indicator_row th df i) = join '','' (week_flags th df i)"
  "derived.truncate (indicator_row th df i) = df ! i"
  by (simp_all add: indicator_row_def Let_def derived.defs indicator.defs)

text \<open>
  Claim C3. For every week \<open>i\<close> of the frame, the status that \<^verbatim>\<open>indicators\<close> assigns
  is red exactly when the severe-spike flag is raised or both the inflow-over-outflow and
  the high-backlog flags are raised; otherwise it is yellow when some flag is raised or
  the week's inflow exceeds the healthy maximum, and green when no flag is raised and
  the inflow is within it. Each flag is in the list of raised flags exactly when its test
  holds, and \<open>problem_flags\<close> is that list joined by commas, so a red week has
  \<open>severe_spike\<close>, or both other flags, among its problem flags.
\<close>

theorem indicators_status:
  assumes "i < length df"
  shows "let th = health_thresholds cfg;
             row = indicators df cfg ! i;
             flags = week_flags th df i;
             spike = (''severe_spike'' \<in> set flags);
             inflow = (''inflow>outflow'' \<in> set flags);
             backlog = (''backlog_high'' \<in> set flags);
             healthy = (real_of_int (defects_inflow_total (df ! i)) \<le> healthy_max_per_deployment th)
         in (spike \<longleftrightarrow> severe_spike_raised th df i) \<and>
            (inflow \<longleftrightarrow> inflow_gt_outflow_raised th df i) \<and>
            (backlog \<longleftrightarrow> backlog_high_raised th df i) \<and>
            (flags = [] \<longleftrightarrow> \<not> spike \<and> \<not> inflow \<and> \<not> backlog) \<and>
            problem_flags row = join '','' flags \<and>
            (health_status row = ''red'' \<longleftrightarrow> spike \<or> (inflow \<and> backlog)) \<and>
            (health_status row = ''yellow'' \<longleftrightarrow>
               \<not> (spike \<or> (inflow \<and> backlog)) \<and> (flags \<noteq> [] \<or> \<not> healthy)) \<and>
            (health_status row = ''green'' \<longleftrightarrow>
               \<not> (spike \<or> (inflow \<and> backlog)) \<and> flags = [] \<and> healthy)"
  using assms
  by (simp add: Let_def indicators_nth indicator_row_fields week_flags_mem week_flags_empty
      week_status_def)

lemma example_derived_rows:
  "length example_derived = 4"
  "backlog_total (example_derived ! 3) = 10"
  by (simp_all add: example_derived_def example_weeks_def derive_row_def measure.defs derived.defs numeral_3_eq_3)

lemma example_inflow_raised: "inflow_gt_outflow_raised (health_thresholds example_cfg) example_derived 3"
  by (simp add: inflow_gt_outflow_raised_def example_cfg_def example_derived_def example_weeks_def
      tail_rows_def derive_row_def measure.defs derived.defs numeral_3_eq_3)

lemma example_backlog_raised: "backlog_high_raised (health_thresholds example_cfg) example_derived 3"
  by (simp add: backlog_high_raised_def example_cfg_def example_derived_rows)

lemma example_spike_not_raised: "\<not> severe_spike_raised (health_thresholds example_cfg) example_derived 3"
  by (simp add: severe_spike_raised_def example_cfg_def example_derived_def example_weeks_def
      tail_rows_def derive_row_def measure.defs derived.defs numeral_3_eq_3)

theorem indicators_status_witness:
  "3 < length example_derived \<and>
   health_status (indicators example_derived example_cfg ! 3) = ''red'' \<and>
   problem_flags (indicators example_derived example_cfg ! 3) = ''inflow>outflow,backlog_high''"
proof -
  have h: "3 < length example_derived" by (simp add: example_derived_rows)
  have f: "week_flags (health_thresholds example_cfg) example_derived 3 =
             [''inflow>outflow'', ''backlog_high'']"
    by (simp add: week_flags_def example_inflow_raised example_backlog_raised
        example_spike_not_raised)
  from indicators_status [OF h, of example_cfg] f h show ?thesis
    by (simp add: Let_def)
qed

subsection \<open>Method selection\<close>

lemma chosen_method_ewma_iff:
  "chosen_method cfg h = ''ewma'' \<longleftrightarrow> configured_method cfg = ''ewma'' \<and> h \<le> 3"
  by (auto simp: chosen_method_def auto_switch_def)



subsection \<open>Non-negative forecasts\<close>

lemma severity_prediction_nonneg:
  "(k, v) \<in> set (severity_prediction df inflow_pred) \<Longrightarrow> 0 \<le> v"
  by (auto simp: severity_prediction_def Let_def)

lemma severity_prediction_keys:
  "map fst (severity_prediction df inflow_pred) = [''critical'', ''high'', ''medium'', ''low'']"
  by (simp add: severity_prediction_def Let_def)

text \<open>
  Claim C6. Whenever \<^verbatim>\<open>forecast_next\<close> returns, the inflow forecast, the outflow
  forecast and every value of the severity breakdown are non-negative, whatever the signs
  of the input columns; the breakdown has the four severities as its keys.
\<close>

theorem forecast_next_nonneg:
  assumes "forecast_next df cfg h = Inr (inflow_fc, outflow_fc, sev)"
  shows "0 \<le> inflow_fc \<and> 0 \<le> outflow_fc \<and> (\<forall>(k, v) \<in> set sev. 0 \<le> v) \<and>
         map fst sev = [''critical'', ''high'', ''medium'', ''low'']"
  using assms
  by (auto simp: forecast_next_def forecast_result_def Let_def severity_prediction_keys
      dest: severity_prediction_nonneg split: sum.splits if_splits)

lemma round_half_even_of_int: "round_half_even (real_of_int n) = n"
  by (simp add: round_half_even_def)

lemma round1_tenths: "round1 (real_of_int n / 10) = real_of_int n / 10"
  by (simp add: round1_def round_half_even_of_int)

lemma negative_weeks_forecast:
  "forecast_next negative_weeks example_cfg 1 =
     Inr (0, 0, [(''critical'', 1), (''high'', 0), (''medium'', 0), (''low'', 0)])"
proof -
  have r: "round1 1 = 1" "round1 0 = 0"
    using round1_tenths [of 10] round1_tenths [of 0] by simp_all
  show ?thesis
    by (simp add: forecast_next_def forecast_result_def chosen_method_def auto_switch_def
      configured_method_def example_cfg_def ewma_predictions_def ewma_def inflow_series_def
      outflow_series_def negative_weeks_def severity_prediction_def tail_rows_def mean_def r)
qed

theorem forecast_next_nonneg_witness:
  "forecast_next negative_weeks example_cfg 1 =
     Inr (0, 0, [(''critical'', 1), (''high'', 0), (''medium'', 0), (''low'', 0)]) \<and>
   (0::real) \<le> 0 \<and> (0::real) \<le> 1 \<and>
   map fst [(''critical'', 1::real), (''high'', 0), (''medium'', 0), (''low'', 0)] =
     [''critical'', ''high'', ''medium'', ''low'']"
  using forecast_next_nonneg [OF negative_weeks_forecast] negative_weeks_forecast
  by simp

subsection \<open>Resource plan\<close>


lemma round_half_even_bounds:
  "\<lfloor>x\<rfloor> \<le> round_half_even x" "round_half_even x \<le> \<lfloor>x\<rfloor> + 1"
  by (simp_all add: round_half_even_def Let_def)

lemma round_half_even_mono:
  assumes "x \<le> y"
  shows "round_half_even x \<le> round_half_even y"
proof (cases "\<lfloor>x\<rfloor> = \<lfloor>y\<rfloor>")
  case True
  with assms show ?thesis
    by (auto simp: round_half_even_def Let_def)
next
  case False
  moreover have "\<lfloor>x\<rfloor> \<le> \<lfloor>y\<rfloor>" using assms by (rule floor_mono)
  ultimately have "\<lfloor>x\<rfloor> + 1 \<le> \<lfloor>y\<rfloor>" by simp
  with round_half_even_bounds(2) [of x] round_half_even_bounds(1) [of y]
  show ?thesis by linarith
qed

lemma round1_mono: "x \<le> y \<Longrightarrow> round1 x \<le> round1 y"
  by (simp add: round1_def round_half_even_mono divide_right_mono)








subsection \<open>Monotonicity of the plan\<close>

lemma total_hours_loop_mono:
  assumes "list_all2 (\<lambda>a b. fst a = fst b \<and> snd a \<le> snd b) sev sev'"
      and "\<forall>k v. hp k = Some v \<longrightarrow> 0 \<le> v"
      and "total_hours_loop hp sev acc = Inr t"
      and "acc \<le> acc'"
  shows "\<exists>t'. total_hours_loop hp sev' acc' = Inr t' \<and> t \<le> t'"
  using assms
proof (induction sev sev' arbitrary: acc acc' rule: list_all2_induct)
  case Nil
  then show ?case by simp
next
  case (Cons a sev b sev')
  obtain k c where a: "a = (k, c)" by (cases a)
  obtain k' c' where b: "b = (k', c')" by (cases b)
  from Cons.hyps(1) a b have kk: "k' = k" and cc: "c \<le> c'" by simp_all
  from Cons.prems(2) a obtain h where h: "hp k = Some h"
    and rest: "total_hours_loop hp sev (acc + h * c) = Inr t"
    by (auto simp: lookup_def split: option.splits)
  from Cons.prems(1) h have "0 \<le> h" by blast
  with cc have "h * c \<le> h * c'" by (simp add: mult_left_mono)
  with Cons.prems(3) have "acc + h * c \<le> acc' + h * c'" by simp
  from Cons.IH [OF Cons.prems(1) rest this] show ?case
    by (simp add: b kk h lookup_def)
qed

lemma increase_one_count:
  fixes sev :: "(string \<times> real) list"
  assumes "i < length sev" and "snd (sev ! i) \<le> c'"
  shows "list_all2 (\<lambda>a b. fst a = fst b \<and> snd a \<le> snd b) sev (sev[i := (fst (sev ! i), c')])"
proof -
  have "list_all2 (\<lambda>a b. fst a = fst b \<and> snd a \<le> snd b) sev sev"
    by (simp add: list_all2_same)
  then have "list_all2 (\<lambda>a b. fst a = fst b \<and> snd a \<le> snd b)
               (sev[i := sev ! i]) (sev[i := (fst (sev ! i), c')])"
    using assms(2) by (intro list_all2_update_cong) simp_all
  then show ?thesis by simp
qed

text \<open>
  Claim C9. When all hours per defect are non-negative and a plan is computed for a
  severity forecast, raising the count of one severity and leaving the others as they
  are gives a plan whose estimated total hours and recommended engineers are at least
  those of the first plan.
\<close>

theorem resource_plan_monotone:
  assumes "\<forall>k v. hours_per_defect (resources cfg) k = Some v \<longrightarrow> 0 \<le> v"
      and "i < length sev_pred"
      and "snd (sev_pred ! i) \<le> c'"
      and "resource_plan next_inflow sev_pred cfg = Inr p"
  shows "\<exists>p'. resource_plan next_inflow (sev_pred[i := (fst (sev_pred ! i), c')]) cfg = Inr p' \<and>
           estimated_total_hours p \<le> estimated_total_hours p' \<and>
           recommended_engineers p \<le> recommended_engineers p'"
proof -
  let ?hp = "hours_per_defect (resources cfg)"
  let ?cap = "engineer_capacity_hours_per_week (resources cfg)"
  from assms(4) obtain t where t: "total_hours_loop ?hp sev_pred 0 = Inr t"
    and p: "p = \<lparr>predicted_inflow = round1 next_inflow,
                 estimated_total_hours = round1 t,
                 recommended_engineers = (if ?cap > 0 then \<lceil>t / ?cap\<rceil> else 0),
                 recommended_qa_hours = round1 (t * qa_share (resources cfg)),
                 plan_hours_per_defect = ?hp\<rparr>"
    by (auto simp: resource_plan_def Let_def split: sum.splits)
  from total_hours_loop_mono [OF increase_one_count [OF assms(2,3)] assms(1) t order_refl]
  obtain t' where t': "total_hours_loop ?hp (sev_pred[i := (fst (sev_pred ! i), c')]) 0 = Inr t'"
    and le: "t \<le> t'" by blast
  have "round1 t \<le> round1 t'" using le by (rule round1_mono)
  moreover have "?cap > 0 \<Longrightarrow> \<lceil>t / ?cap\<rceil> \<le> \<lceil>t' / ?cap\<rceil>"
    using le by (intro ceiling_mono divide_right_mono) simp_all
  ultimately show ?thesis
    by (simp add: resource_plan_def Let_def t' p)
qed

lemma example_plan:
  "resource_plan 8 example_sev_pred example_cfg =
     Inr \<lparr>predicted_inflow = 8, estimated_total_hours = 202 / 10, recommended_engineers = 1,
          recommended_qa_hours = 5,
          plan_hours_per_defect = hours_per_defect (resources example_cfg)\<rparr>"
proof -
  have r: "round1 8 = 8" "round1 (101 / 5) = 101 / 5" "round1 (101 / 20) = 5"
    by (simp_all add: round1_def round_half_even_def Let_def)
  show ?thesis
    by (simp add: resource_plan_def example_sev_pred_def example_cfg_def lookup_def Let_def r)
qed

theorem resource_plan_monotone_witness:
  "0 < length example_sev_pred \<and>
   snd (example_sev_pred ! 0) \<le> 9 \<and>
   (\<exists>p'. resource_plan 8 (example_sev_pred[0 := (''critical'', 9)]) example_cfg = Inr p' \<and>
      202 / 10 \<le> estimated_total_hours p' \<and> 1 \<le> recommended_engineers p')"
proof -
  have a: "\<forall>k v. hours_per_defect (resources example_cfg) k = Some v \<longrightarrow> 0 \<le> v"
    by (auto simp: example_cfg_def split: if_splits)
  have b: "0 < length example_sev_pred" by (simp add: example_sev_pred_def)
  have c: "snd (example_sev_pred ! 0) \<le> 9" by (simp add: example_sev_pred_def)
  have d: "fst (example_sev_pred ! 0) = ''critical''" by (simp add: example_sev_pred_def)
  from resource_plan_monotone [OF a b c example_plan] b c d show ?thesis
    by simp
qed

subsection \<open>Least squares on the abscissae 0, ..., n - 1\<close>

lemma arange_sum: "sum_list (map real [0..<n]) = real n * (real n - 1) / 2"
  by (induction n) (simp_all add: field_simps)

lemma arange_sum_squares:
  "sum_list (map (\<lambda>x. x * x) (map real [0..<n])) = (real n - 1) * real n * (2 * real n - 1) / 6"
  by (induction n) (simp_all add: field_simps comp_def)

lemma arange_determinant:
  "real n * sum_list (map (\<lambda>x. x * x) (map real [0..<n])) -
     sum_list (map real [0..<n]) * sum_list (map real [0..<n]) =
   (real n)\<^sup>2 * ((real n)\<^sup>2 - 1) / 12"
  unfolding arange_sum arange_sum_squares
  by (simp add: power2_eq_square field_simps)

lemma arange_determinant_pos:
  assumes "2 \<le> n"
  shows "0 < real n * sum_list (map (\<lambda>x. x * x) (map real [0..<n])) -
     sum_list (map real [0..<n]) * sum_list (map real [0..<n])"
proof -
  have "1 < real n" using assms by simp
  then have "1 < (real n)\<^sup>2" by (simp add: power2_eq_square less_1_mult)
  moreover have "0 < (real n)\<^sup>2" using assms by simp
  ultimately have "0 < (real n)\<^sup>2 * ((real n)\<^sup>2 - 1) / 12" by simp
  then show ?thesis by (simp only: arange_determinant)
qed






lemma polyfit1_arange:
  assumes "2 \<le> length y"
  shows "\<exists>a b. polyfit1 (map real [0..<length y]) y = Inr (a, b)"
  using assms arange_determinant_pos [OF assms]
  by (auto simp: polyfit1_def Let_def)

lemma last_upto: "1 \<le> h \<Longrightarrow> last [1..h] = h"
  by (subst upto_rec2) simp_all

lemma linreg_forecast_value:
  assumes "polyfit1 (map real [0..<length y]) y = Inr (a, b)" and "1 \<le> h"
  shows "linreg_forecast y h = Inr (a * real_of_int (int (length y) - 1 + h) + b)"
  using assms by (simp add: linreg_forecast_def Let_def last_map last_upto)





subsection \<open>Failures of the forecaster\<close>

lemma forecast_result_Inl: "forecast_result df (Inl e) = Inl e"
  by (simp add: forecast_result_def)

lemma linreg_forecast_empty: "linreg_forecast [] h = Inl TypeError"
  by (simp add: linreg_forecast_def polyfit1_def)

lemma linreg_forecast_no_horizon:
  assumes "2 \<le> length y" and "h \<le> 0"
  shows "linreg_forecast y h = Inl IndexError"
proof -
  from polyfit1_arange [OF assms(1)] obtain a b
    where "polyfit1 (map real [0..<length y]) y = Inr (a, b)" by blast
  with assms(2) show ?thesis by (simp add: linreg_forecast_def)
qed

lemma linreg_forecast_succeeds:
  assumes "2 \<le> length y" and "1 \<le> h"
  shows "\<exists>v. linreg_forecast y h = Inr v"
proof -
  from polyfit1_arange [OF assms(1)] obtain a b
    where "polyfit1 (map real [0..<length y]) y = Inr (a, b)" by blast
  from linreg_forecast_value [OF this assms(2)] show ?thesis by blast
qed

text \<open>
  Claim C5, as amended. \<^verbatim>\<open>forecast_next\<close> checks neither \<open>ewma_alpha\<close> nor the
  horizon, and its failures are Python's own exceptions. On the EWMA branch it fails with
  \<open>KeyError\<close> when the forecast section or \<open>ewma_alpha\<close> is absent; with \<open>ewma_alpha\<close>
  present it fails exactly when the frame is empty, with \<open>IndexError\<close>, whatever the
  values of \<open>ewma_alpha\<close> and of the horizon. On the linear-regression branch it fails
  with \<open>TypeError\<close> on an empty frame, and on a frame of at least two rows it fails
  exactly when the horizon is below 1, with \<open>IndexError\<close>. So with \<open>ewma_alpha\<close>
  present, at least two rows and a horizon of at least 1 it returns a forecast.
\<close>

theorem forecast_next_failures:
  "(chosen_method cfg h = ''ewma'' \<and> forecast cfg = None \<longrightarrow>
      forecast_next df cfg h = Inl (KeyError ''forecast'')) \<and>
   (chosen_method cfg h = ''ewma'' \<and> forecast cfg = Some f \<and> ewma_alpha f = None \<longrightarrow>
      forecast_next df cfg h = Inl (KeyError ''ewma_alpha'')) \<and>
   (chosen_method cfg h = ''ewma'' \<and> forecast cfg = Some f \<and> ewma_alpha f = Some alpha \<longrightarrow>
      (df = [] \<longrightarrow> forecast_next df cfg h = Inl IndexError) \<and>
      (df \<noteq> [] \<longrightarrow> (\<exists>r. forecast_next df cfg h = Inr r))) \<and>
   (chosen_method cfg h \<noteq> ''ewma'' \<and> df = [] \<longrightarrow> forecast_next df cfg h = Inl TypeError) \<and>
   (chosen_method cfg h \<noteq> ''ewma'' \<and> 2 \<le> length df \<and> h \<le> 0 \<longrightarrow>
      forecast_next df cfg h = Inl IndexError) \<and>
   (chosen_method cfg h \<noteq> ''ewma'' \<and> 2 \<le> length df \<and> 1 \<le> h \<longrightarrow>
      (\<exists>r. forecast_next df cfg h = Inr r))"
proof (intro conjI impI; (elim conjE)?)
  assume "chosen_method cfg h = ''ewma''" "forecast cfg = None"
  then show "forecast_next df cfg h = Inl (KeyError ''forecast'')"
    by (simp add: forecast_next_def ewma_predictions_def forecast_result_Inl)
next
  assume "chosen_method cfg h = ''ewma''" "forecast cfg = Some f" "ewma_alpha f = None"
  then show "forecast_next df cfg h = Inl (KeyError ''ewma_alpha'')"
    by (simp add: forecast_next_def ewma_predictions_def forecast_result_Inl)
next
  assume "chosen_method cfg h = ''ewma''" "forecast cfg = Some f" "ewma_alpha f = Some alpha"
    "df = []"
  then show "forecast_next df cfg h = Inl IndexError"
    by (simp add: forecast_next_def ewma_predictions_def forecast_result_Inl ewma_def
        inflow_series_def)
next
  assume "chosen_method cfg h = ''ewma''" "forecast cfg = Some f" "ewma_alpha f = Some alpha"
    "df \<noteq> []"
  then have "\<exists>q. ewma_predictions (inflow_series df) (outflow_series df) cfg h = Inr q"
    "chosen_method cfg h = ''ewma''"
    by (simp_all add: ewma_predictions_def ewma_def inflow_series_def outflow_series_def)
  then show "\<exists>r. forecast_next df cfg h = Inr r"
    by (auto simp: forecast_next_def forecast_result_def)
next
  assume "chosen_method cfg h \<noteq> ''ewma''" "df = []"
  then show "forecast_next df cfg h = Inl TypeError"
    by (simp add: forecast_next_def linreg_predictions_def forecast_result_Inl
        linreg_forecast_empty inflow_series_def)
next
  assume m: "chosen_method cfg h \<noteq> ''ewma''" and n: "2 \<le> length df" and h: "h \<le> 0"
  from n have "2 \<le> length (inflow_series df)" by (simp add: inflow_series_def)
  from linreg_forecast_no_horizon [OF this h] m
  show "forecast_next df cfg h = Inl IndexError"
    by (simp add: forecast_next_def linreg_predictions_def forecast_result_Inl)
next
  assume m: "chosen_method cfg h \<noteq> ''ewma''" and n: "2 \<le> length df" and h: "1 \<le> h"
  from n have "2 \<le> length (inflow_series df)" "2 \<le> length (outflow_series df)"
    by (simp_all add: inflow_series_def outflow_series_def)
  from linreg_forecast_succeeds [OF this(1) h] linreg_forecast_succeeds [OF this(2) h]
  obtain v w where "linreg_forecast (inflow_series df) h = Inr v"
    "linreg_forecast (outflow_series df) h = Inr w" by blast
  then have "linreg_predictions (inflow_series df) (outflow_series df) h = Inr (v, w)"
    by (simp add: linreg_predictions_def)
  with m show "\<exists>r. forecast_next df cfg h = Inr r"
    by (auto simp: forecast_next_def forecast_result_def)
qed

lemma example_methods:
  "chosen_method example_cfg 1 = ''ewma''"
  "chosen_method unchecked_cfg 1 = ''ewma''"
  "chosen_method unchecked_cfg 0 = ''ewma''"
  "chosen_method linreg_cfg 1 \<noteq> ''ewma''"
  "chosen_method linreg_cfg 0 \<noteq> ''ewma''"
  by (simp_all add: chosen_method_def auto_switch_def configured_method_def example_cfg_def
      unchecked_cfg_def linreg_cfg_def)

lemma example_weeks_length: "length example_weeks = 4" "example_weeks \<noteq> []"
  by (simp_all add: example_weeks_def)

lemma example_severity_prediction: "severity_prediction example_weeks 8 = example_sev_pred"
proof -
  have r: "round1 0 = 0" "round1 (16 / 13) = 12 / 10" "round1 (48 / 13) = 37 / 10"
    "round1 (40 / 13) = 31 / 10"
    by (simp_all add: round1_def round_half_even_def Let_def)
  show ?thesis
    by (simp add: severity_prediction_def example_weeks_def tail_rows_def mean_def Let_def
        example_sev_pred_def r)
qed

lemma example_series:
  "inflow_series example_weeks = [5, 6, 7, 8]"
  "outflow_series example_weeks = [4, 4, 4, 4]"
  by (simp_all add: inflow_series_def outflow_series_def example_weeks_def)

lemma unchecked_predictions:
  "ewma_predictions [5, 6, 7, 8] [4, 4, 4, 4] unchecked_cfg 1 = Inr (8, 4)"
  "ewma_predictions [5, 6, 7, 8] [4, 4, 4, 4] unchecked_cfg 0 = Inr (8, 4)"
  by (simp_all add: ewma_predictions_def unchecked_cfg_def ewma_def)

lemma unchecked_forecasts:
  "forecast_next example_weeks unchecked_cfg 1 = Inr (8, 4, example_sev_pred)"
  "forecast_next example_weeks unchecked_cfg 0 = Inr (8, 4, example_sev_pred)"
  by (simp_all add: forecast_next_def example_methods example_series unchecked_predictions
      forecast_result_def example_severity_prediction)

text \<open>
  Claim C5 as stated fails: with \<open>ewma_alpha = 2\<close>, outside the interval from 0 to 1,
  the forecast of the scenario is returned on the EWMA branch, for horizon 1 and also
  for horizon 0.
\<close>

theorem forecast_next_unchecked_counterexample:
  "ewma_alpha (the (forecast unchecked_cfg)) = Some 2 \<and>
   chosen_method unchecked_cfg 1 = ''ewma'' \<and>
   forecast_next example_weeks unchecked_cfg 1 = Inr (8, 4, example_sev_pred) \<and>
   chosen_method unchecked_cfg 0 = ''ewma'' \<and>
   forecast_next example_weeks unchecked_cfg 0 = Inr (8, 4, example_sev_pred)"
  by (simp add: unchecked_forecasts example_methods) (simp add: unchecked_cfg_def)

theorem forecast_next_failures_witness:
  "forecast_next ([] :: measure list) example_cfg 1 = Inl IndexError \<and>
   forecast_next ([] :: measure list) linreg_cfg 1 = Inl TypeError \<and>
   forecast_next example_weeks linreg_cfg 0 = Inl IndexError \<and>
   (\<exists>r. forecast_next example_weeks linreg_cfg 1 = Inr r) \<and>
   (\<exists>r. forecast_next example_weeks unchecked_cfg 1 = Inr r)"
proof -
  have e: "forecast example_cfg = Some \<lparr>forecast_method = Some ''ewma'', ewma_alpha = Some (3 / 10)\<rparr>"
    "ewma_alpha \<lparr>forecast_method = Some ''ewma'', ewma_alpha = Some (3 / 10)\<rparr> = Some (3 / 10)"
    by (simp_all add: example_cfg_def)
  have u: "forecast unchecked_cfg = Some \<lparr>forecast_method = Some ''ewma'', ewma_alpha = Some 2\<rparr>"
    "ewma_alpha \<lparr>forecast_method = Some ''ewma'', ewma_alpha = Some 2\<rparr> = Some 2"
    by (simp_all add: unchecked_cfg_def)
  have n: "2 \<le> length example_weeks" by (simp add: example_weeks_length)
  from forecast_next_failures [where cfg = example_cfg and h = 1 and df = "[] :: measure list"] example_methods(1) e
  have 1: "forecast_next ([] :: measure list) example_cfg 1 = Inl IndexError" by blast
  from forecast_next_failures [where cfg = linreg_cfg and h = 1 and df = "[] :: measure list"] example_methods(4)
  have 2: "forecast_next ([] :: measure list) linreg_cfg 1 = Inl TypeError" by blast
  from forecast_next_failures [where cfg = linreg_cfg and h = 0 and df = example_weeks] example_methods(5) n
  have 3: "forecast_next example_weeks linreg_cfg 0 = Inl IndexError" by simp
  from forecast_next_failures [where cfg = linreg_cfg and h = 1 and df = example_weeks] example_methods(4) n
  have 4: "\<exists>r. forecast_next example_weeks linreg_cfg 1 = Inr r" by simp
  from forecast_next_failures [where cfg = unchecked_cfg and h = 1 and df = example_weeks] example_methods(2) u
    example_weeks_length(2)
  have 5: "\<exists>r. forecast_next example_weeks unchecked_cfg 1 = Inr r" by blast
  from 1 2 3 4 5 show ?thesis by blast
qed

end
